theory Spec2Isabelle
  imports Main
begin

section \<open>Data model\<close>

text \<open>
  The package ships one logger in two versions of the same file: one built from a meter
  and a context (\<open>NewOpenTelemetryLoggerWithContext\<close>, suffix \<open>_ctx\<close> below) and one
  built from a meter provider (\<open>NewOpenTelemetryLoggerWithMeterProvider\<close>, suffix
  \<open>_mp\<close>). Both are embedded, each function from its own source text.
\<close>

subsection \<open>Event kinds, time and the log entry\<close>

text \<open>
  \<open>EventType\<close> is a Go string type (\<open>string(entry.EventType)\<close> is used as an attribute
  value), so any string is a possible kind.
\<close>

type_synonym EventType = string

text \<open>
  Modelled from the spec: the declaration of the five event-kind constants is not among
  the sources, so their values are a parameter of the model. The spec only says that
  they form a closed set of five kinds; Go rejects a \<open>switch\<close> whose constant cases
  repeat a value, which is what \<open>distinct_kinds\<close> records.
\<close>

record EventKinds =
  EventEnforce :: EventType
  EventAddPolicy :: EventType
  EventRemovePolicy :: EventType
  EventLoadPolicy :: EventType
  EventSavePolicy :: EventType

definition distinct_kinds :: "EventKinds \<Rightarrow> bool" where
  "distinct_kinds K =
     distinct [EventEnforce K, EventAddPolicy K, EventRemovePolicy K,
               EventLoadPolicy K, EventSavePolicy K]"

text \<open>
  An instant is a number of nanoseconds on the clock's time line; a \<open>Duration\<close> is
  Go's signed 64-bit count of nanoseconds. \<open>time_Sub t u\<close> is \<open>t.Sub(u)\<close> of the
  standard library: the difference, held at the largest or smallest \<open>Duration\<close> when
  it does not fit.
\<close>

type_synonym Time = int
type_synonym Duration = int

definition maxDuration :: Duration where
  "maxDuration = 2 ^ 63 - 1"

definition minDuration :: Duration where
  "minDuration = - (2 ^ 63)"

definition time_Sub :: "Time \<Rightarrow> Time \<Rightarrow> Duration" where
  "time_Sub t u =
     (let d = t - u
      in if maxDuration < d then maxDuration
         else if d < minDuration then minDuration
         else d)"

text \<open>A Go \<open>error\<close> value is kept as its message; \<open>None\<close> is \<open>nil\<close>.\<close>

type_synonym error = string

text \<open>
  Modelled from the spec: the declaration of \<open>LogEntry\<close> is not among the sources. The
  fields are those the logger, its tests and the example read and write; \<open>RuleCount\<close>
  is a Go \<open>int\<close>, on which the code does no arithmetic.
\<close>

record LogEntry =
  IsActive :: bool
  EventType :: EventType
  StartTime :: Time
  EndTime :: Time
  Duration :: Duration
  Subject :: string
  Object :: string
  Action :: string
  Domain' :: string
  Allowed :: bool
  RuleCount :: int
  Error :: "error option"

subsection \<open>The metrics backend\<close>

datatype Context = Background | Derived nat

datatype instrument_option = WithDescription string | WithUnit string

text \<open>
  A meter creates instruments. It is the backend's code, so it is a parameter: each of
  its three methods takes a name and options, may change the backend's state \<open>'s\<close>,
  and returns an instrument handle \<open>'h\<close> or an error.
\<close>

record ('s, 'h) Meter =
  Float64Histogram :: "string \<Rightarrow> instrument_option list \<Rightarrow> 's \<Rightarrow> (error + 'h) \<times> 's"
  Int64Counter :: "string \<Rightarrow> instrument_option list \<Rightarrow> 's \<Rightarrow> (error + 'h) \<times> 's"
  Int64Gauge :: "string \<Rightarrow> instrument_option list \<Rightarrow> 's \<Rightarrow> (error + 'h) \<times> 's"

text \<open>
  \<open>Seconds d\<close> stands for \<open>d.Seconds()\<close>, the \<open>float64\<close> number of seconds of the
  duration \<open>d\<close>; the conversion is not interpreted.
\<close>

datatype float64 = Seconds Duration

type_synonym attrs = "(string \<times> string) list"

text \<open>
  What a hook does to the outside world, in order: a value recorded on a histogram, an
  amount added to a counter, a value recorded on a gauge (each with the context and the
  attributes passed), and a call of the user's callback with the entry it was handed.
\<close>

datatype 'h effect =
    HistogramRecord Context 'h float64 attrs
  | CounterAdd Context 'h int attrs
  | GaugeRecord Context 'h int attrs
  | CallbackCall LogEntry

subsection \<open>The logger\<close>

text \<open>
  The callback gets a pointer to the entry, so it returns the entry as it leaves it
  together with its \<open>error\<close> result. The fields both versions of the struct share are
  a base record; each version extends it with its own field.
\<close>

type_synonym callback = "LogEntry \<Rightarrow> LogEntry \<times> error option"

record 'h LoggerFields =
  enabledEventTypes :: "EventType \<rightharpoonup> bool"
  callback :: "callback option"
  enforceDuration :: 'h
  enforceTotal :: 'h
  policyOpsTotal :: 'h
  policyOpsDuration :: 'h
  policyRulesCount :: 'h

record 'h OpenTelemetryLogger_ctx = "'h LoggerFields" +
  ctx :: Context

record ('s, 'h) OpenTelemetryLogger_mp = "'h LoggerFields" +
  meter :: "('s, 'h) Meter"

section \<open>Construction\<close>

text \<open>
  A constructor's calls to the meter are its effect on the backend, so it returns them
  in order, each with the method called, the name, the options and what the meter
  answered, beside its result and the backend's state afterwards.
\<close>

datatype instrument_kind = Histogram | Counter | Gauge

type_synonym 'h registration = "instrument_kind \<times> string \<times> instrument_option list \<times> (error + 'h)"

text \<open>The first version returns \<open>(nil, err)\<close> at the first failing registration: \<open>Inl err\<close>.\<close>

definition NewOpenTelemetryLoggerWithContext ::
  "Context \<Rightarrow> ('s, 'h) Meter \<Rightarrow> 's
     \<Rightarrow> (error + 'h OpenTelemetryLogger_ctx) \<times> 'h registration list \<times> 's" where
  "NewOpenTelemetryLoggerWithContext ctx' meter' s0 =
     (let n1 = ''casbin.enforce.duration'';
          o1 = [WithDescription ''Duration of enforce requests in seconds'', WithUnit ''s''];
          n2 = ''casbin.enforce.total'';
          o2 = [WithDescription ''Total number of enforce requests''];
          n3 = ''casbin.policy.operations.total'';
          o3 = [WithDescription ''Total number of policy operations''];
          n4 = ''casbin.policy.operations.duration'';
          o4 = [WithDescription ''Duration of policy operations in seconds'', WithUnit ''s''];
          n5 = ''casbin.policy.rules.count'';
          o5 = [WithDescription ''Number of policy rules affected by operations'']
      in
      case Float64Histogram meter' n1 o1 s0 of (r1, s1) \<Rightarrow>
      (case r1 of Inl err \<Rightarrow> (Inl err, [(Histogram, n1, o1, r1)], s1)
       | Inr h1 \<Rightarrow>
      case Int64Counter meter' n2 o2 s1 of (r2, s2) \<Rightarrow>
      (case r2 of Inl err \<Rightarrow> (Inl err, [(Histogram, n1, o1, r1), (Counter, n2, o2, r2)], s2)
       | Inr h2 \<Rightarrow>
      case Int64Counter meter' n3 o3 s2 of (r3, s3) \<Rightarrow>
      (case r3 of Inl err \<Rightarrow>
         (Inl err, [(Histogram, n1, o1, r1), (Counter, n2, o2, r2), (Counter, n3, o3, r3)], s3)
       | Inr h3 \<Rightarrow>
      case Float64Histogram meter' n4 o4 s3 of (r4, s4) \<Rightarrow>
      (case r4 of Inl err \<Rightarrow>
         (Inl err, [(Histogram, n1, o1, r1), (Counter, n2, o2, r2), (Counter, n3, o3, r3),
                    (Histogram, n4, o4, r4)], s4)
       | Inr h4 \<Rightarrow>
      case Int64Gauge meter' n5 o5 s4 of (r5, s5) \<Rightarrow>
      (case r5 of Inl err \<Rightarrow>
         (Inl err, [(Histogram, n1, o1, r1), (Counter, n2, o2, r2), (Counter, n3, o3, r3),
                    (Histogram, n4, o4, r4), (Gauge, n5, o5, r5)], s5)
       | Inr h5 \<Rightarrow>
         (Inr \<lparr>enabledEventTypes = Map.empty, callback = None,
               enforceDuration = h1, enforceTotal = h2, policyOpsTotal = h3,
               policyOpsDuration = h4, policyRulesCount = h5, ctx = ctx'\<rparr>,
          [(Histogram, n1, o1, r1), (Counter, n2, o2, r2), (Counter, n3, o3, r3),
           (Histogram, n4, o4, r4), (Gauge, n5, o5, r5)], s5)))))))"


text \<open>
  The second version asks the provider for the meter named \<open>meterName\<close> and calls
  \<open>panic(err)\<close> at the first failing registration: here \<open>Inl err\<close> is that panic, and
  \<open>Inr\<close> the logger returned. A provider is a function from a name to a meter.
\<close>

definition meterName :: string where
  "meterName = ''github.com/casbin/casbin-opentelemetry-logger''"

definition NewOpenTelemetryLoggerWithMeterProvider ::
  "(string \<Rightarrow> ('s, 'h) Meter) \<Rightarrow> 's
     \<Rightarrow> (error + ('s, 'h) OpenTelemetryLogger_mp) \<times> 'h registration list \<times> 's" where
  "NewOpenTelemetryLoggerWithMeterProvider provider s0 =
     (let meter' = provider meterName;
          n1 = ''casbin.enforce.duration'';
          o1 = [WithDescription ''Duration of enforce requests in seconds'', WithUnit ''s''];
          n2 = ''casbin.enforce.total'';
          o2 = [WithDescription ''Total number of enforce requests''];
          n3 = ''casbin.policy.operations.total'';
          o3 = [WithDescription ''Total number of policy operations''];
          n4 = ''casbin.policy.operations.duration'';
          o4 = [WithDescription ''Duration of policy operations in seconds'', WithUnit ''s''];
          n5 = ''casbin.policy.rules.count'';
          o5 = [WithDescription ''Number of policy rules affected by operations'']
      in
      case Float64Histogram meter' n1 o1 s0 of (r1, s1) \<Rightarrow>
      (case r1 of Inl err \<Rightarrow> (Inl err, [(Histogram, n1, o1, r1)], s1)
       | Inr h1 \<Rightarrow>
      case Int64Counter meter' n2 o2 s1 of (r2, s2) \<Rightarrow>
      (case r2 of Inl err \<Rightarrow> (Inl err, [(Histogram, n1, o1, r1), (Counter, n2, o2, r2)], s2)
       | Inr h2 \<Rightarrow>
      case Int64Counter meter' n3 o3 s2 of (r3, s3) \<Rightarrow>
      (case r3 of Inl err \<Rightarrow>
         (Inl err, [(Histogram, n1, o1, r1), (Counter, n2, o2, r2), (Counter, n3, o3, r3)], s3)
       | Inr h3 \<Rightarrow>
      case Float64Histogram meter' n4 o4 s3 of (r4, s4) \<Rightarrow>
      (case r4 of Inl err \<Rightarrow>
         (Inl err, [(Histogram, n1, o1, r1), (Counter, n2, o2, r2), (Counter, n3, o3, r3),
                    (Histogram, n4, o4, r4)], s4)
       | Inr h4 \<Rightarrow>
      case Int64Gauge meter' n5 o5 s4 of (r5, s5) \<Rightarrow>
      (case r5 of Inl err \<Rightarrow>
         (Inl err, [(Histogram, n1, o1, r1), (Counter, n2, o2, r2), (Counter, n3, o3, r3),
                    (Histogram, n4, o4, r4), (Gauge, n5, o5, r5)], s5)
       | Inr h5 \<Rightarrow>
         (Inr \<lparr>enabledEventTypes = Map.empty, callback = None,
               enforceDuration = h1, enforceTotal = h2, policyOpsTotal = h3,
               policyOpsDuration = h4, policyRulesCount = h5, meter = meter'\<rparr>,
          [(Histogram, n1, o1, r1), (Counter, n2, o2, r2), (Counter, n3, o3, r3),
           (Histogram, n4, o4, r4), (Gauge, n5, o5, r5)], s5)))))))"


section \<open>Configuration\<close>

text \<open>
  \<open>make(map[EventType]bool)\<close> followed by the loop storing \<open>true\<close> under each element.
\<close>

fun set_all_true :: "(EventType \<rightharpoonup> bool) \<Rightarrow> EventType list \<Rightarrow> (EventType \<rightharpoonup> bool)" where
  "set_all_true m [] = m"
| "set_all_true m (eventType # eventTypes) = set_all_true (m(eventType \<mapsto> True)) eventTypes"

definition SetEventTypes_ctx ::
  "'h OpenTelemetryLogger_ctx \<Rightarrow> EventType list \<Rightarrow> 'h OpenTelemetryLogger_ctx \<times> error option" where
  "SetEventTypes_ctx l eventTypes =
     (l\<lparr>enabledEventTypes := set_all_true Map.empty eventTypes\<rparr>, None)"

definition SetEventTypes_mp ::
  "('s, 'h) OpenTelemetryLogger_mp \<Rightarrow> EventType list
     \<Rightarrow> ('s, 'h) OpenTelemetryLogger_mp \<times> error option" where
  "SetEventTypes_mp o' eventTypes =
     (o'\<lparr>enabledEventTypes := set_all_true Map.empty eventTypes\<rparr>, None)"

definition SetLogCallback_ctx ::
  "'h OpenTelemetryLogger_ctx \<Rightarrow> callback option \<Rightarrow> 'h OpenTelemetryLogger_ctx \<times> error option" where
  "SetLogCallback_ctx l cb = (l\<lparr>callback := cb\<rparr>, None)"

definition SetLogCallback_mp ::
  "('s, 'h) OpenTelemetryLogger_mp \<Rightarrow> callback option
     \<Rightarrow> ('s, 'h) OpenTelemetryLogger_mp \<times> error option" where
  "SetLogCallback_mp o' cb = (o'\<lparr>callback := cb\<rparr>, None)"

section \<open>The event gate\<close>

text \<open>
  \<open>len(m) > 0\<close> of a Go map (always finite) is that it has a key; \<open>m[k]\<close> of a missing
  key is \<open>false\<close>. The current time \<open>time.Now()\<close> is the argument \<open>now\<close>. A hook
  returns the entry as it leaves it and its \<open>error\<close> result.
\<close>

definition map_nonempty :: "('k \<rightharpoonup> 'v) \<Rightarrow> bool" where
  "map_nonempty m = (dom m \<noteq> {})"

definition map_index :: "('k \<rightharpoonup> bool) \<Rightarrow> 'k \<Rightarrow> bool" where
  "map_index m k = (case m k of None \<Rightarrow> False | Some b \<Rightarrow> b)"

definition OnBeforeEvent_ctx ::
  "'h OpenTelemetryLogger_ctx \<Rightarrow> Time \<Rightarrow> LogEntry \<Rightarrow> LogEntry \<times> error option" where
  "OnBeforeEvent_ctx l now entry =
     (if map_nonempty (enabledEventTypes l) \<and> \<not> map_index (enabledEventTypes l) (EventType entry)
      then (entry\<lparr>IsActive := False\<rparr>, None)
      else (entry\<lparr>IsActive := True, StartTime := now\<rparr>, None))"

definition OnBeforeEvent_mp ::
  "('s, 'h) OpenTelemetryLogger_mp \<Rightarrow> Time \<Rightarrow> LogEntry \<Rightarrow> LogEntry \<times> error option" where
  "OnBeforeEvent_mp o' now entry =
     (if map_nonempty (enabledEventTypes o') \<and> \<not> map_index (enabledEventTypes o') (EventType entry)
      then (entry\<lparr>IsActive := False\<rparr>, None)
      else (entry\<lparr>IsActive := True, StartTime := now\<rparr>, None))"

section \<open>The metric recorder\<close>

text \<open>
  The two recording helpers only read the entry; what they do is the list of backend
  calls they make, in order. The first version passes the logger's context, the second
  a fresh background context.
\<close>

definition recordEnforceMetrics_ctx :: "'h OpenTelemetryLogger_ctx \<Rightarrow> LogEntry \<Rightarrow> 'h effect list" where
  "recordEnforceMetrics_ctx l entry =
     (let domain = (if Domain' entry = '''' then ''default'' else Domain' entry);
          allowed = (if Allowed entry then ''true'' else ''false'');
          attrs = [(''allowed'', allowed), (''domain'', domain)]
      in [HistogramRecord (ctx l) (enforceDuration l) (Seconds (Duration entry)) attrs,
          CounterAdd (ctx l) (enforceTotal l) 1 attrs])"

definition recordPolicyMetrics_ctx :: "'h OpenTelemetryLogger_ctx \<Rightarrow> LogEntry \<Rightarrow> 'h effect list" where
  "recordPolicyMetrics_ctx l entry =
     (let operation = EventType entry;
          success = (if Error entry \<noteq> None then ''false'' else ''true'');
          opsAttrs = [(''operation'', operation), (''success'', success)];
          durationAttrs = [(''operation'', operation)]
      in [CounterAdd (ctx l) (policyOpsTotal l) 1 opsAttrs,
          HistogramRecord (ctx l) (policyOpsDuration l) (Seconds (Duration entry)) durationAttrs]
         @ (if 0 < RuleCount entry
            then (let countAttrs = [(''operation'', operation)]
                  in [GaugeRecord (ctx l) (policyRulesCount l) (RuleCount entry) countAttrs])
            else []))"

definition recordEnforceMetrics_mp :: "('s, 'h) OpenTelemetryLogger_mp \<Rightarrow> LogEntry \<Rightarrow> 'h effect list" where
  "recordEnforceMetrics_mp o' entry =
     (let domain = (if Domain' entry = '''' then ''default'' else Domain' entry);
          allowed = (if Allowed entry then ''true'' else ''false'');
          ctx = Background;
          attrs = [(''allowed'', allowed), (''domain'', domain)]
      in [HistogramRecord ctx (enforceDuration o') (Seconds (Duration entry)) attrs,
          CounterAdd ctx (enforceTotal o') 1 attrs])"

definition recordPolicyMetrics_mp :: "('s, 'h) OpenTelemetryLogger_mp \<Rightarrow> LogEntry \<Rightarrow> 'h effect list" where
  "recordPolicyMetrics_mp o' entry =
     (let operation = EventType entry;
          success = (if Error entry \<noteq> None then ''false'' else ''true'');
          ctx = Background;
          opAttrs = [(''operation'', operation), (''success'', success)];
          durationAttrs = [(''operation'', operation)]
      in [CounterAdd ctx (policyOpsTotal o') 1 opAttrs,
          HistogramRecord ctx (policyOpsDuration o') (Seconds (Duration entry)) durationAttrs]
         @ (if 0 < RuleCount entry
            then [GaugeRecord ctx (policyRulesCount o') (RuleCount entry) durationAttrs]
            else []))"

text \<open>
  \<open>OnAfterEvent\<close> returns the entry as it leaves it, the backend calls and callback
  call it made, in order, and its \<open>error\<close> result.
\<close>

definition OnAfterEvent_ctx ::
  "EventKinds \<Rightarrow> 'h OpenTelemetryLogger_ctx \<Rightarrow> Time \<Rightarrow> LogEntry
     \<Rightarrow> LogEntry \<times> 'h effect list \<times> error option" where
  "OnAfterEvent_ctx K l now entry =
     (if \<not> IsActive entry then (entry, [], None)
      else
        let entry1 = entry\<lparr>EndTime := now\<rparr>;
            entry2 = entry1\<lparr>Duration := time_Sub (EndTime entry1) (StartTime entry1)\<rparr>;
            metrics =
              (if EventType entry2 = EventEnforce K then recordEnforceMetrics_ctx l entry2
               else if EventType entry2 = EventAddPolicy K \<or> EventType entry2 = EventRemovePolicy K
                     \<or> EventType entry2 = EventLoadPolicy K \<or> EventType entry2 = EventSavePolicy K
               then recordPolicyMetrics_ctx l entry2
               else [])
        in case callback l of
             Some cb \<Rightarrow> (case cb entry2 of (entry3, err) \<Rightarrow> (entry3, metrics @ [CallbackCall entry2], err))
           | None \<Rightarrow> (entry2, metrics, None))"

definition OnAfterEvent_mp ::
  "EventKinds \<Rightarrow> ('s, 'h) OpenTelemetryLogger_mp \<Rightarrow> Time \<Rightarrow> LogEntry
     \<Rightarrow> LogEntry \<times> 'h effect list \<times> error option" where
  "OnAfterEvent_mp K o' now entry =
     (if \<not> IsActive entry then (entry, [], None)
      else
        let entry1 = entry\<lparr>EndTime := now\<rparr>;
            entry2 = entry1\<lparr>Duration := time_Sub (EndTime entry1) (StartTime entry1)\<rparr>;
            metrics =
              (if EventType entry2 = EventEnforce K then recordEnforceMetrics_mp o' entry2
               else if EventType entry2 = EventAddPolicy K \<or> EventType entry2 = EventRemovePolicy K
                     \<or> EventType entry2 = EventLoadPolicy K \<or> EventType entry2 = EventSavePolicy K
               then recordPolicyMetrics_mp o' entry2
               else [])
        in case callback o' of
             Some cb \<Rightarrow> (case cb entry2 of (entry3, err) \<Rightarrow> (entry3, metrics @ [CallbackCall entry2], err))
           | None \<Rightarrow> (entry2, metrics, None))"

text \<open>
  A host calling \<open>OnAfterEvent\<close> on the same entry once per element of a list of clock
  readings: the entry after the last call, every effect in order, and every result.
\<close>

fun OnAfterEvent_ctx_times ::
  "EventKinds \<Rightarrow> 'h OpenTelemetryLogger_ctx \<Rightarrow> Time list \<Rightarrow> LogEntry
     \<Rightarrow> LogEntry \<times> 'h effect list \<times> error option list" where
  "OnAfterEvent_ctx_times K l [] entry = (entry, [], [])"
| "OnAfterEvent_ctx_times K l (now # nows) entry =
     (case OnAfterEvent_ctx K l now entry of
        (entry', effs, err) \<Rightarrow>
          (case OnAfterEvent_ctx_times K l nows entry' of
             (entry'', effs', errs) \<Rightarrow> (entry'', effs @ effs', err # errs)))"

fun OnAfterEvent_mp_times ::
  "EventKinds \<Rightarrow> ('s, 'h) OpenTelemetryLogger_mp \<Rightarrow> Time list \<Rightarrow> LogEntry
     \<Rightarrow> LogEntry \<times> 'h effect list \<times> error option list" where
  "OnAfterEvent_mp_times K o' [] entry = (entry, [], [])"
| "OnAfterEvent_mp_times K o' (now # nows) entry =
     (case OnAfterEvent_mp K o' now entry of
        (entry', effs, err) \<Rightarrow>
          (case OnAfterEvent_mp_times K o' nows entry' of
             (entry'', effs', errs) \<Rightarrow> (entry'', effs @ effs', err # errs)))"

section \<open>Notions used to state the properties\<close>

text \<open>
  The enabled-event set of a logger is the key set of its map. Every map the package
  builds stores only \<open>true\<close>; \<open>only_true\<close> says so.
\<close>

definition enabled_kinds :: "('h, 'a) LoggerFields_scheme \<Rightarrow> EventType set" where
  "enabled_kinds l = dom (enabledEventTypes l)"

definition only_true :: "(EventType \<rightharpoonup> bool) \<Rightarrow> bool" where
  "only_true m = (\<forall>k. m k \<noteq> Some False)"

text \<open>The entry as \<open>OnAfterEvent\<close> has it once both of its assignments are done.\<close>

definition stamped :: "Time \<Rightarrow> LogEntry \<Rightarrow> LogEntry" where
  "stamped now entry = entry\<lparr>EndTime := now, Duration := time_Sub now (StartTime entry)\<rparr>"

fun is_callback_call :: "'h effect \<Rightarrow> bool" where
  "is_callback_call (CallbackCall _) = True"
| "is_callback_call _ = False"

fun is_gauge_record :: "'h effect \<Rightarrow> bool" where
  "is_gauge_record (GaugeRecord _ _ _ _) = True"
| "is_gauge_record _ = False"

text \<open>The backend calls among a hook's effects, in order.\<close>

definition measurements :: "'h effect list \<Rightarrow> 'h effect list" where
  "measurements effs = filter (\<lambda>e. \<not> is_callback_call e) effs"

definition mutation_kinds :: "EventKinds \<Rightarrow> EventType set" where
  "mutation_kinds K = {EventAddPolicy K, EventRemovePolicy K, EventLoadPolicy K, EventSavePolicy K}"

definition known_kinds :: "EventKinds \<Rightarrow> EventType set" where
  "known_kinds K = insert (EventEnforce K) (mutation_kinds K)"

text \<open>
  What the completion hook owes the callback, given the entry \<open>handed\<close> over: without a
  callback no call, the entry left as it is and no error; with one, exactly one call,
  after every measurement, and the callback's entry and result passed on unchanged.
\<close>

definition callback_contract ::
  "callback option \<Rightarrow> LogEntry \<Rightarrow> LogEntry \<times> 'h effect list \<times> error option \<Rightarrow> bool" where
  "callback_contract cbo handed out =
     (case out of (entry', effs, err) \<Rightarrow>
        (case cbo of
           None \<Rightarrow> effs = measurements effs \<and> err = None \<and> entry' = handed
         | Some cb \<Rightarrow> effs = measurements effs @ [CallbackCall handed]
                       \<and> err = snd (cb handed) \<and> entry' = fst (cb handed)))"








text \<open>Two loggers, one of each version, that agree on every field they share.\<close>

definition same_fields :: "'h OpenTelemetryLogger_ctx \<Rightarrow> ('s, 'h) OpenTelemetryLogger_mp \<Rightarrow> bool" where
  "same_fields l o' =
     (enabledEventTypes l = enabledEventTypes o' \<and> callback l = callback o'
      \<and> enforceDuration l = enforceDuration o' \<and> enforceTotal l = enforceTotal o'
      \<and> policyOpsTotal l = policyOpsTotal o' \<and> policyOpsDuration l = policyOpsDuration o'
      \<and> policyRulesCount l = policyRulesCount o')"

fun with_context :: "Context \<Rightarrow> 'h effect \<Rightarrow> 'h effect" where
  "with_context c (HistogramRecord _ h v a) = HistogramRecord c h v a"
| "with_context c (CounterAdd _ h n a) = CounterAdd c h n a"
| "with_context c (GaugeRecord _ h n a) = GaugeRecord c h n a"
| "with_context c (CallbackCall e) = CallbackCall e"

text \<open>
  Two constructions that made the same registrations, left the backend in the same state,
  and either both failed with the same error or returned loggers with the same fields.
\<close>

definition same_construction ::
  "(error + 'h OpenTelemetryLogger_ctx) \<times> 'h registration list \<times> 's
     \<Rightarrow> (error + ('s, 'h) OpenTelemetryLogger_mp) \<times> 'h registration list \<times> 's \<Rightarrow> bool" where
  "same_construction a b =
     (fst (snd a) = fst (snd b) \<and> snd (snd a) = snd (snd b)
      \<and> (case (fst a, fst b) of
            (Inr l, Inr o') \<Rightarrow> same_fields l o'
          | (Inl err, Inl err') \<Rightarrow> err = err'
          | _ \<Rightarrow> False))"

subsection \<open>Concrete inputs\<close>

text \<open>
  Values for running the model: one choice of the five kind names, a meter that hands out
  consecutive numbers as handles, one whose gauges are rejected, a logger of each version
  as the constructors build it over the first meter, a callback that fails, and an entry.
\<close>

definition example_kinds :: EventKinds where
  "example_kinds = \<lparr>EventEnforce = ''enforce'', EventAddPolicy = ''addPolicy'',
     EventRemovePolicy = ''removePolicy'', EventLoadPolicy = ''loadPolicy'',
     EventSavePolicy = ''savePolicy''\<rparr>"

definition example_meter :: "(nat, nat) Meter" where
  "example_meter = \<lparr>Float64Histogram = (\<lambda>name opts s. (Inr s, Suc s)),
     Int64Counter = (\<lambda>name opts s. (Inr s, Suc s)),
     Int64Gauge = (\<lambda>name opts s. (Inr s, Suc s))\<rparr>"


definition example_logger_ctx :: "nat OpenTelemetryLogger_ctx" where
  "example_logger_ctx = \<lparr>enabledEventTypes = Map.empty, callback = None,
     enforceDuration = 0, enforceTotal = 1, policyOpsTotal = 2, policyOpsDuration = 3,
     policyRulesCount = 4, ctx = Derived 1\<rparr>"

definition example_logger_mp :: "(nat, nat) OpenTelemetryLogger_mp" where
  "example_logger_mp = \<lparr>enabledEventTypes = Map.empty, callback = None,
     enforceDuration = 0, enforceTotal = 1, policyOpsTotal = 2, policyOpsDuration = 3,
     policyRulesCount = 4, meter = example_meter\<rparr>"

definition failing_callback :: callback where
  "failing_callback entry = (entry, Some ''callback error'')"

definition example_entry :: LogEntry where
  "example_entry = \<lparr>IsActive = True, EventType = ''enforce'', StartTime = 100, EndTime = 0,
     Duration = 0, Subject = ''alice'', Object = ''data1'', Action = ''read'',
     Domain' = ''domain1'', Allowed = True, RuleCount = 0, Error = None\<rparr>"

definition removal_entry :: LogEntry where
  "removal_entry = example_entry\<lparr>EventType := ''removePolicy'', RuleCount := 2,
     Error := Some ''storage failed''\<rparr>"

section \<open>Properties of the configuration and of the event gate\<close>

lemma set_all_true_eq:
  "set_all_true m ks = (\<lambda>k. if k \<in> set ks then Some True else m k)"
  by (induction ks arbitrary: m) auto

lemma map_index_dom: "only_true m \<Longrightarrow> map_index m k = (k \<in> dom m)"
proof (cases "m k")
  case None
  then show ?thesis by (simp add: map_index_def dom_def)
next
  case (Some b)
  moreover assume "only_true m"
  ultimately have "b" unfolding only_true_def by (cases b) auto
  with Some show ?thesis by (auto simp: map_index_def dom_def)
qed

text \<open>The maps the package builds store only \<open>true\<close>.\<close>

lemma only_true_empty: "only_true Map.empty"
  by (simp add: only_true_def)

lemma only_true_set_all_true: "only_true (set_all_true Map.empty ks)"
  by (simp add: only_true_def set_all_true_eq)

lemma only_true_SetEventTypes_ctx: "only_true (enabledEventTypes (fst (SetEventTypes_ctx l ks)))"
  by (simp add: SetEventTypes_ctx_def only_true_set_all_true)

lemma only_true_SetEventTypes_mp: "only_true (enabledEventTypes (fst (SetEventTypes_mp o' ks)))"
  by (simp add: SetEventTypes_mp_def only_true_set_all_true)

lemma only_true_SetLogCallback_ctx:
  "only_true (enabledEventTypes l) \<Longrightarrow> only_true (enabledEventTypes (fst (SetLogCallback_ctx l cb)))"
  by (simp add: SetLogCallback_ctx_def)

lemma only_true_SetLogCallback_mp:
  "only_true (enabledEventTypes o') \<Longrightarrow> only_true (enabledEventTypes (fst (SetLogCallback_mp o' cb)))"
  by (simp add: SetLogCallback_mp_def)

text \<open>
  Claim C1. In both versions, for every entry and every logger whose map stores only
  \<open>true\<close> (every logger the package builds): when the enabled-event set is not empty and
  the entry's kind is not in it, \<open>OnBeforeEvent\<close> sets \<open>IsActive\<close> to false and writes
  nothing else, so the start time stays as it was; in every other case it sets \<open>IsActive\<close>
  to true and the start time to the current time. It returns no error in either case.
\<close>

theorem OnBeforeEvent_gate:
  assumes "only_true (enabledEventTypes l)" and "only_true (enabledEventTypes o')"
  shows "OnBeforeEvent_ctx l now entry =
           (if enabled_kinds l \<noteq> {} \<and> EventType entry \<notin> enabled_kinds l
            then (entry\<lparr>IsActive := False\<rparr>, None)
            else (entry\<lparr>IsActive := True, StartTime := now\<rparr>, None))
       \<and> OnBeforeEvent_mp o' now entry =
           (if enabled_kinds o' \<noteq> {} \<and> EventType entry \<notin> enabled_kinds o'
            then (entry\<lparr>IsActive := False\<rparr>, None)
            else (entry\<lparr>IsActive := True, StartTime := now\<rparr>, None))"
  using assms
  by (simp add: OnBeforeEvent_ctx_def OnBeforeEvent_mp_def enabled_kinds_def map_nonempty_def
      map_index_dom)

theorem OnBeforeEvent_gate_witness:
  "only_true (enabledEventTypes (fst (SetEventTypes_ctx example_logger_ctx [''enforce''])))
   \<and> only_true (enabledEventTypes example_logger_mp)
   \<and> OnBeforeEvent_ctx (fst (SetEventTypes_ctx example_logger_ctx [''enforce''])) 7 removal_entry
       = (removal_entry\<lparr>IsActive := False\<rparr>, None)
   \<and> StartTime (fst (OnBeforeEvent_ctx (fst (SetEventTypes_ctx example_logger_ctx [''enforce''])) 7
         removal_entry)) = 100
   \<and> OnBeforeEvent_mp example_logger_mp 7 removal_entry
       = (removal_entry\<lparr>IsActive := True, StartTime := 7\<rparr>, None)"
proof -
  have h1: "only_true (enabledEventTypes (fst (SetEventTypes_ctx example_logger_ctx [''enforce''])))"
    by (rule only_true_SetEventTypes_ctx)
  have h2: "only_true (enabledEventTypes example_logger_mp)"
    by (simp add: example_logger_mp_def only_true_empty)
  show ?thesis
    using h1 h2 OnBeforeEvent_gate [OF h1 h2, of 7 removal_entry]
    by (simp add: enabled_kinds_def SetEventTypes_ctx_def example_logger_mp_def
        removal_entry_def example_entry_def)
qed

text \<open>
  Claim C9. In both versions \<open>SetEventTypes\<close> returns no error and replaces the map by the
  one that stores \<open>true\<close> under exactly the kinds of the given sequence, whatever the map
  was before, so the enabled-event set becomes the set of those kinds. Two sequences with
  the same set of kinds give the same logger, and so the same \<open>OnBeforeEvent\<close> on every
  entry at every time.
\<close>

theorem SetEventTypes_replaces:
  "SetEventTypes_ctx l ks =
     (l\<lparr>enabledEventTypes := (\<lambda>k. if k \<in> set ks then Some True else None)\<rparr>, None)
   \<and> SetEventTypes_mp o' ks =
     (o'\<lparr>enabledEventTypes := (\<lambda>k. if k \<in> set ks then Some True else None)\<rparr>, None)
   \<and> enabled_kinds (fst (SetEventTypes_ctx l ks)) = set ks
   \<and> enabled_kinds (fst (SetEventTypes_mp o' ks)) = set ks
   \<and> (set ks = set ks' \<longrightarrow>
        SetEventTypes_ctx l ks = SetEventTypes_ctx l ks'
      \<and> SetEventTypes_mp o' ks = SetEventTypes_mp o' ks'
      \<and> (\<forall>now entry. OnBeforeEvent_ctx (fst (SetEventTypes_ctx l ks)) now entry
                      = OnBeforeEvent_ctx (fst (SetEventTypes_ctx l ks')) now entry)
      \<and> (\<forall>now entry. OnBeforeEvent_mp (fst (SetEventTypes_mp o' ks)) now entry
                      = OnBeforeEvent_mp (fst (SetEventTypes_mp o' ks')) now entry))"
  by (auto simp: SetEventTypes_ctx_def SetEventTypes_mp_def set_all_true_eq enabled_kinds_def dom_def)

theorem SetEventTypes_replaces_witness:
  "set [''enforce'', ''addPolicy'', ''enforce''] = set [''addPolicy'', ''enforce'']
   \<and> SetEventTypes_ctx example_logger_ctx [''enforce'', ''addPolicy'', ''enforce'']
       = SetEventTypes_ctx example_logger_ctx [''addPolicy'', ''enforce'']
   \<and> SetEventTypes_mp example_logger_mp [''enforce'', ''addPolicy'', ''enforce'']
       = SetEventTypes_mp example_logger_mp [''addPolicy'', ''enforce'']
   \<and> snd (SetEventTypes_ctx example_logger_ctx [''enforce'', ''addPolicy'', ''enforce'']) = None
   \<and> enabled_kinds (fst (SetEventTypes_mp example_logger_mp [''enforce'', ''addPolicy'', ''enforce'']))
       = {''enforce'', ''addPolicy''}"
proof -
  have h: "set [''enforce'', ''addPolicy'', ''enforce''] = set [''addPolicy'', ''enforce'']"
    by auto
  note t = SetEventTypes_replaces [of example_logger_ctx "[''enforce'', ''addPolicy'', ''enforce'']"
      example_logger_mp "[''addPolicy'', ''enforce'']"]
  have c1: "SetEventTypes_ctx example_logger_ctx [''enforce'', ''addPolicy'', ''enforce'']
       = SetEventTypes_ctx example_logger_ctx [''addPolicy'', ''enforce'']"
    using t h by blast
  have c2: "SetEventTypes_mp example_logger_mp [''enforce'', ''addPolicy'', ''enforce'']
       = SetEventTypes_mp example_logger_mp [''addPolicy'', ''enforce'']"
    using t h by blast
  have c3: "snd (SetEventTypes_ctx example_logger_ctx [''enforce'', ''addPolicy'', ''enforce'']) = None"
    using t by simp
  have "enabled_kinds (fst (SetEventTypes_mp example_logger_mp [''enforce'', ''addPolicy'', ''enforce'']))
       = set [''enforce'', ''addPolicy'', ''enforce'']"
    using t by blast
  then have c4: "enabled_kinds (fst (SetEventTypes_mp example_logger_mp
        [''enforce'', ''addPolicy'', ''enforce''])) = {''enforce'', ''addPolicy''}"
    by auto
  from h c1 c2 c3 c4 show ?thesis by (intro conjI)
qed

section \<open>Properties of the metric recorder\<close>

lemma measurements_simps [simp]:
  "measurements [] = []"
  "measurements (HistogramRecord c h v a # effs) = HistogramRecord c h v a # measurements effs"
  "measurements (CounterAdd c h n a # effs) = CounterAdd c h n a # measurements effs"
  "measurements (GaugeRecord c h n a # effs) = GaugeRecord c h n a # measurements effs"
  "measurements (CallbackCall e # effs) = measurements effs"
  "measurements (xs @ ys) = measurements xs @ measurements ys"
  by (simp_all add: measurements_def)

lemma measurements_enforce_ctx [simp]:
  "measurements (recordEnforceMetrics_ctx l e) = recordEnforceMetrics_ctx l e"
  by (simp add: recordEnforceMetrics_ctx_def Let_def)

lemma measurements_enforce_mp [simp]:
  "measurements (recordEnforceMetrics_mp l e) = recordEnforceMetrics_mp l e"
  by (simp add: recordEnforceMetrics_mp_def Let_def)

lemma measurements_policy_ctx [simp]:
  "measurements (recordPolicyMetrics_ctx l e) = recordPolicyMetrics_ctx l e"
  by (simp add: recordPolicyMetrics_ctx_def Let_def)

lemma measurements_policy_mp [simp]:
  "measurements (recordPolicyMetrics_mp l e) = recordPolicyMetrics_mp l e"
  by (simp add: recordPolicyMetrics_mp_def Let_def)

lemma mutation_kinds_iff:
  "(x = EventAddPolicy K \<or> x = EventRemovePolicy K \<or> x = EventLoadPolicy K \<or> x = EventSavePolicy K)
     = (x \<in> mutation_kinds K)"
  by (simp add: mutation_kinds_def)

lemma mutation_not_enforce:
  "distinct_kinds K \<Longrightarrow> k \<in> mutation_kinds K \<Longrightarrow> k \<noteq> EventEnforce K"
  by (auto simp: distinct_kinds_def mutation_kinds_def)

lemma distinct_example_kinds: "distinct_kinds example_kinds"
  by (simp add: distinct_kinds_def example_kinds_def)

text \<open>The two paths of \<open>OnAfterEvent\<close>, in terms of the stamped entry.\<close>

lemma OnAfterEvent_ctx_inactive:
  "\<not> IsActive entry \<Longrightarrow> OnAfterEvent_ctx K l now entry = (entry, [], None)"
  by (simp add: OnAfterEvent_ctx_def)

lemma OnAfterEvent_mp_inactive:
  "\<not> IsActive entry \<Longrightarrow> OnAfterEvent_mp K l now entry = (entry, [], None)"
  by (simp add: OnAfterEvent_mp_def)

lemma OnAfterEvent_ctx_active:
  "IsActive entry \<Longrightarrow> OnAfterEvent_ctx K l now entry =
     (let metrics =
        (if EventType entry = EventEnforce K then recordEnforceMetrics_ctx l (stamped now entry)
         else if EventType entry \<in> mutation_kinds K then recordPolicyMetrics_ctx l (stamped now entry)
         else [])
      in case callback l of
           Some cb \<Rightarrow> (fst (cb (stamped now entry)), metrics @ [CallbackCall (stamped now entry)],
                        snd (cb (stamped now entry)))
         | None \<Rightarrow> (stamped now entry, metrics, None))"
  by (simp add: OnAfterEvent_ctx_def stamped_def mutation_kinds_iff Let_def
      split: option.splits prod.splits)

lemma OnAfterEvent_mp_active:
  "IsActive entry \<Longrightarrow> OnAfterEvent_mp K l now entry =
     (let metrics =
        (if EventType entry = EventEnforce K then recordEnforceMetrics_mp l (stamped now entry)
         else if EventType entry \<in> mutation_kinds K then recordPolicyMetrics_mp l (stamped now entry)
         else [])
      in case callback l of
           Some cb \<Rightarrow> (fst (cb (stamped now entry)), metrics @ [CallbackCall (stamped now entry)],
                        snd (cb (stamped now entry)))
         | None \<Rightarrow> (stamped now entry, metrics, None))"
  by (simp add: OnAfterEvent_mp_def stamped_def mutation_kinds_iff Let_def
      split: option.splits prod.splits)

lemma measurements_after_ctx:
  "IsActive entry \<Longrightarrow> measurements (fst (snd (OnAfterEvent_ctx K l now entry))) =
     (if EventType entry = EventEnforce K then recordEnforceMetrics_ctx l (stamped now entry)
      else if EventType entry \<in> mutation_kinds K then recordPolicyMetrics_ctx l (stamped now entry)
      else [])"
  by (simp add: OnAfterEvent_ctx_active Let_def split: option.splits)

lemma measurements_after_mp:
  "IsActive entry \<Longrightarrow> measurements (fst (snd (OnAfterEvent_mp K l now entry))) =
     (if EventType entry = EventEnforce K then recordEnforceMetrics_mp l (stamped now entry)
      else if EventType entry \<in> mutation_kinds K then recordPolicyMetrics_mp l (stamped now entry)
      else [])"
  by (simp add: OnAfterEvent_mp_active Let_def split: option.splits)

lemma OnAfterEvent_ctx_times_inactive:
  "\<not> IsActive entry \<Longrightarrow>
     OnAfterEvent_ctx_times K l nows entry = (entry, [], replicate (length nows) None)"
  by (induction nows) (simp_all add: OnAfterEvent_ctx_inactive)

lemma OnAfterEvent_mp_times_inactive:
  "\<not> IsActive entry \<Longrightarrow>
     OnAfterEvent_mp_times K l nows entry = (entry, [], replicate (length nows) None)"
  by (induction nows) (simp_all add: OnAfterEvent_mp_inactive)




text \<open>
  Claim C2. For every active entry of the enforce kind, the backend calls of
  \<open>OnAfterEvent\<close> are exactly two: one value, the seconds of the duration, recorded on
  the enforce-duration histogram, and 1 added to the enforce counter. Both carry the same
  attributes: \<open>allowed\<close>, \<open>"true"\<close> or \<open>"false"\<close> after the entry's \<open>Allowed\<close>, and
  \<open>domain\<close>, the entry's domain or \<open>"default"\<close> when it is the empty string. The first
  version passes the logger's context, the second a background context.
\<close>

theorem evaluate_metrics:
  assumes "IsActive entry" and "EventType entry = EventEnforce K"
  shows "measurements (fst (snd (OnAfterEvent_ctx K l now entry))) =
           [HistogramRecord (ctx l) (enforceDuration l) (Seconds (time_Sub now (StartTime entry)))
              [(''allowed'', if Allowed entry then ''true'' else ''false''),
               (''domain'', if Domain' entry = '''' then ''default'' else Domain' entry)],
            CounterAdd (ctx l) (enforceTotal l) 1
              [(''allowed'', if Allowed entry then ''true'' else ''false''),
               (''domain'', if Domain' entry = '''' then ''default'' else Domain' entry)]]
       \<and> measurements (fst (snd (OnAfterEvent_mp K o' now entry))) =
           [HistogramRecord Background (enforceDuration o') (Seconds (time_Sub now (StartTime entry)))
              [(''allowed'', if Allowed entry then ''true'' else ''false''),
               (''domain'', if Domain' entry = '''' then ''default'' else Domain' entry)],
            CounterAdd Background (enforceTotal o') 1
              [(''allowed'', if Allowed entry then ''true'' else ''false''),
               (''domain'', if Domain' entry = '''' then ''default'' else Domain' entry)]]"
  using assms
  by (simp add: measurements_after_ctx measurements_after_mp recordEnforceMetrics_ctx_def
      recordEnforceMetrics_mp_def stamped_def Let_def)

theorem evaluate_metrics_witness:
  "IsActive example_entry \<and> EventType example_entry = EventEnforce example_kinds
   \<and> measurements (fst (snd (OnAfterEvent_ctx example_kinds example_logger_ctx 350 example_entry))) =
       [HistogramRecord (Derived 1) 0 (Seconds 250) [(''allowed'', ''true''), (''domain'', ''domain1'')],
        CounterAdd (Derived 1) 1 1 [(''allowed'', ''true''), (''domain'', ''domain1'')]]
   \<and> measurements (fst (snd (OnAfterEvent_mp example_kinds example_logger_mp 350
                                (example_entry\<lparr>Domain' := '''', Allowed := False\<rparr>)))) =
       [HistogramRecord Background 0 (Seconds 250) [(''allowed'', ''false''), (''domain'', ''default'')],
        CounterAdd Background 1 1 [(''allowed'', ''false''), (''domain'', ''default'')]]"
proof -
  have a: "IsActive example_entry" by (simp add: example_entry_def)
  have k: "EventType example_entry = EventEnforce example_kinds"
    by (simp add: example_entry_def example_kinds_def)
  have a': "IsActive (example_entry\<lparr>Domain' := '''', Allowed := False\<rparr>)"
    by (simp add: example_entry_def)
  have k': "EventType (example_entry\<lparr>Domain' := '''', Allowed := False\<rparr>) = EventEnforce example_kinds"
    by (simp add: example_entry_def example_kinds_def)
  show ?thesis
    using a k evaluate_metrics [OF a k, of example_logger_ctx 350 example_logger_mp]
      evaluate_metrics [OF a' k', of example_logger_ctx 350 example_logger_mp]
    by (simp add: example_entry_def example_logger_ctx_def example_logger_mp_def time_Sub_def
        maxDuration_def minDuration_def)
qed

text \<open>
  Claim C3. For every active entry whose kind is one of the four policy operations, the
  backend calls of \<open>OnAfterEvent\<close> other than gauge records are exactly two: 1 added to
  the policy-operations counter with the attributes \<open>operation\<close>, the kind as a string,
  and \<open>success\<close>, \<open>"true"\<close> when the entry has no error and \<open>"false"\<close> otherwise; and the
  seconds of the duration recorded on the policy-operations histogram with the attribute
  \<open>operation\<close> alone, so without \<open>success\<close>.
\<close>

theorem mutation_metrics:
  assumes "IsActive entry" and "distinct_kinds K" and "EventType entry \<in> mutation_kinds K"
  shows "filter (\<lambda>e. \<not> is_gauge_record e) (measurements (fst (snd (OnAfterEvent_ctx K l now entry)))) =
           [CounterAdd (ctx l) (policyOpsTotal l) 1
              [(''operation'', EventType entry),
               (''success'', if Error entry = None then ''true'' else ''false'')],
            HistogramRecord (ctx l) (policyOpsDuration l) (Seconds (time_Sub now (StartTime entry)))
              [(''operation'', EventType entry)]]
       \<and> filter (\<lambda>e. \<not> is_gauge_record e) (measurements (fst (snd (OnAfterEvent_mp K o' now entry)))) =
           [CounterAdd Background (policyOpsTotal o') 1
              [(''operation'', EventType entry),
               (''success'', if Error entry = None then ''true'' else ''false'')],
            HistogramRecord Background (policyOpsDuration o') (Seconds (time_Sub now (StartTime entry)))
              [(''operation'', EventType entry)]]"
  using assms mutation_not_enforce [OF assms(2,3)]
  by (simp add: measurements_after_ctx measurements_after_mp recordPolicyMetrics_ctx_def
      recordPolicyMetrics_mp_def stamped_def Let_def)

theorem mutation_metrics_witness:
  "IsActive removal_entry \<and> distinct_kinds example_kinds
   \<and> EventType removal_entry \<in> mutation_kinds example_kinds
   \<and> filter (\<lambda>e. \<not> is_gauge_record e)
        (measurements (fst (snd (OnAfterEvent_ctx example_kinds example_logger_ctx 350 removal_entry)))) =
       [CounterAdd (Derived 1) 2 1 [(''operation'', ''removePolicy''), (''success'', ''false'')],
        HistogramRecord (Derived 1) 3 (Seconds 250) [(''operation'', ''removePolicy'')]]
   \<and> filter (\<lambda>e. \<not> is_gauge_record e)
        (measurements (fst (snd (OnAfterEvent_mp example_kinds example_logger_mp 350
            (removal_entry\<lparr>Error := None\<rparr>))))) =
       [CounterAdd Background 2 1 [(''operation'', ''removePolicy''), (''success'', ''true'')],
        HistogramRecord Background 3 (Seconds 250) [(''operation'', ''removePolicy'')]]"
proof -
  have a: "IsActive removal_entry" by (simp add: removal_entry_def example_entry_def)
  have k: "EventType removal_entry \<in> mutation_kinds example_kinds"
    by (simp add: removal_entry_def mutation_kinds_def example_kinds_def)
  have a': "IsActive (removal_entry\<lparr>Error := None\<rparr>)"
    by (simp add: removal_entry_def example_entry_def)
  have k': "EventType (removal_entry\<lparr>Error := None\<rparr>) \<in> mutation_kinds example_kinds"
    by (simp add: removal_entry_def mutation_kinds_def example_kinds_def)
  show ?thesis
    using a k distinct_example_kinds
      mutation_metrics [OF a distinct_example_kinds k, of example_logger_ctx 350 example_logger_mp]
      mutation_metrics [OF a' distinct_example_kinds k', of example_logger_ctx 350 example_logger_mp]
    by (simp add: removal_entry_def example_entry_def example_logger_ctx_def example_logger_mp_def
        time_Sub_def maxDuration_def minDuration_def)
qed

text \<open>
  Claim C4. For every active entry whose kind is one of the four policy operations, the
  gauge records among all effects of \<open>OnAfterEvent\<close> are: when the entry's rule count is
  above zero, exactly one, of that count on the rules-count gauge with the attribute
  \<open>operation\<close>, the kind as a string; when it is zero or negative, none.
\<close>

theorem rules_gauge:
  assumes "IsActive entry" and "distinct_kinds K" and "EventType entry \<in> mutation_kinds K"
  shows "filter is_gauge_record (fst (snd (OnAfterEvent_ctx K l now entry))) =
           (if 0 < RuleCount entry
            then [GaugeRecord (ctx l) (policyRulesCount l) (RuleCount entry)
                    [(''operation'', EventType entry)]]
            else [])
       \<and> filter is_gauge_record (fst (snd (OnAfterEvent_mp K o' now entry))) =
           (if 0 < RuleCount entry
            then [GaugeRecord Background (policyRulesCount o') (RuleCount entry)
                    [(''operation'', EventType entry)]]
            else [])"
  using assms mutation_not_enforce [OF assms(2,3)]
  by (simp add: OnAfterEvent_ctx_active OnAfterEvent_mp_active recordPolicyMetrics_ctx_def
      recordPolicyMetrics_mp_def stamped_def Let_def split: option.splits)

theorem rules_gauge_witness:
  "IsActive removal_entry \<and> distinct_kinds example_kinds
   \<and> EventType removal_entry \<in> mutation_kinds example_kinds
   \<and> filter is_gauge_record (fst (snd (OnAfterEvent_ctx example_kinds example_logger_ctx 350 removal_entry)))
       = [GaugeRecord (Derived 1) 4 2 [(''operation'', ''removePolicy'')]]
   \<and> filter is_gauge_record (fst (snd (OnAfterEvent_mp example_kinds example_logger_mp 350
          (removal_entry\<lparr>RuleCount := 0\<rparr>)))) = []
   \<and> filter is_gauge_record (fst (snd (OnAfterEvent_mp example_kinds example_logger_mp 350
          (removal_entry\<lparr>RuleCount := - 3\<rparr>)))) = []"
proof -
  have a: "IsActive (removal_entry\<lparr>RuleCount := n\<rparr>)" for n
    by (simp add: removal_entry_def example_entry_def)
  have k: "EventType (removal_entry\<lparr>RuleCount := n\<rparr>) \<in> mutation_kinds example_kinds" for n
    by (simp add: removal_entry_def mutation_kinds_def example_kinds_def)
  have r: "removal_entry\<lparr>RuleCount := 2\<rparr> = removal_entry"
    by (simp add: removal_entry_def)
  show ?thesis
    using a [of 2] k [of 2] distinct_example_kinds
      rules_gauge [OF a [of 2] distinct_example_kinds k [of 2],
        of example_logger_ctx 350 example_logger_mp]
      rules_gauge [OF a [of 0] distinct_example_kinds k [of 0],
        of example_logger_ctx 350 example_logger_mp]
      rules_gauge [OF a [of "- 3"] distinct_example_kinds k [of "- 3"],
        of example_logger_ctx 350 example_logger_mp]
    by (simp add: r) (simp add: removal_entry_def example_entry_def example_logger_ctx_def)
qed

text \<open>
  Claim C5. For every entry that is not active, in both versions and whatever callback is
  registered, any number of calls of \<open>OnAfterEvent\<close> (one per clock reading of the list)
  makes no backend call and no callback call, leaves the entry as it was, so with its end
  time and duration untouched, and returns no error each time.
\<close>

theorem inactive_noop:
  assumes "\<not> IsActive entry"
  shows "OnAfterEvent_ctx_times K l nows entry = (entry, [], replicate (length nows) None)
       \<and> OnAfterEvent_mp_times K o' nows entry = (entry, [], replicate (length nows) None)"
  using assms by (simp add: OnAfterEvent_ctx_times_inactive OnAfterEvent_mp_times_inactive)

theorem inactive_noop_witness:
  "\<not> IsActive (example_entry\<lparr>IsActive := False\<rparr>)
   \<and> OnAfterEvent_ctx_times example_kinds
        (fst (SetLogCallback_ctx example_logger_ctx (Some failing_callback))) [350, 360, 370]
        (example_entry\<lparr>IsActive := False\<rparr>)
       = (example_entry\<lparr>IsActive := False\<rparr>, [], [None, None, None])
   \<and> OnAfterEvent_mp_times example_kinds
        (fst (SetLogCallback_mp example_logger_mp (Some failing_callback))) [350]
        (example_entry\<lparr>IsActive := False\<rparr>)
       = (example_entry\<lparr>IsActive := False\<rparr>, [], [None])"
proof -
  have h: "\<not> IsActive (example_entry\<lparr>IsActive := False\<rparr>)" by simp
  show ?thesis
    using h
      inactive_noop [OF h, of example_kinds
        "fst (SetLogCallback_ctx example_logger_ctx (Some failing_callback))" "[350, 360, 370]"
        "fst (SetLogCallback_mp example_logger_mp (Some failing_callback))"]
      inactive_noop [OF h, of example_kinds
        "fst (SetLogCallback_ctx example_logger_ctx (Some failing_callback))" "[350]"
        "fst (SetLogCallback_mp example_logger_mp (Some failing_callback))"]
    by (simp add: numeral_3_eq_3)
qed

text \<open>
  Claim C6. For every active entry, in both versions and whatever its kind: when a
  callback is registered, \<open>OnAfterEvent\<close> calls it exactly once, after every backend call,
  with the entry as stamped, and returns the callback's result unchanged; when none is
  registered it makes no callback call and returns no error. A kind outside the five known
  ones makes no backend call at all, and the callback is still handled that way.
\<close>

theorem callback_once:
  assumes "IsActive entry"
  shows "callback_contract (callback l) (stamped now entry) (OnAfterEvent_ctx K l now entry)
       \<and> callback_contract (callback o') (stamped now entry) (OnAfterEvent_mp K o' now entry)
       \<and> (EventType entry \<notin> known_kinds K \<longrightarrow>
            measurements (fst (snd (OnAfterEvent_ctx K l now entry))) = []
          \<and> measurements (fst (snd (OnAfterEvent_mp K o' now entry))) = [])"
  using assms
  by (simp add: callback_contract_def OnAfterEvent_ctx_active OnAfterEvent_mp_active known_kinds_def
      Let_def split: option.splits)

theorem callback_once_witness:
  "IsActive (example_entry\<lparr>EventType := ''reload''\<rparr>)
   \<and> EventType (example_entry\<lparr>EventType := ''reload''\<rparr>) \<notin> known_kinds example_kinds
   \<and> OnAfterEvent_ctx example_kinds
        (fst (SetLogCallback_ctx example_logger_ctx (Some failing_callback))) 350
        (example_entry\<lparr>EventType := ''reload''\<rparr>)
       = (example_entry\<lparr>EventType := ''reload'', EndTime := 350, Duration := 250\<rparr>,
          [CallbackCall (example_entry\<lparr>EventType := ''reload'', EndTime := 350, Duration := 250\<rparr>)],
          Some ''callback error'')
   \<and> OnAfterEvent_mp example_kinds example_logger_mp 350 (example_entry\<lparr>EventType := ''reload''\<rparr>)
       = (example_entry\<lparr>EventType := ''reload'', EndTime := 350, Duration := 250\<rparr>, [], None)"
proof -
  let ?e = "example_entry\<lparr>EventType := ''reload''\<rparr>"
  let ?l = "fst (SetLogCallback_ctx example_logger_ctx (Some failing_callback))"
  have a: "IsActive ?e" by (simp add: example_entry_def)
  have k: "EventType ?e \<notin> known_kinds example_kinds"
    by (simp add: known_kinds_def mutation_kinds_def example_kinds_def)
  have s: "stamped 350 ?e = example_entry\<lparr>EventType := ''reload'', EndTime := 350, Duration := 250\<rparr>"
    by (simp add: stamped_def example_entry_def time_Sub_def maxDuration_def minDuration_def)
  have cl: "callback ?l = Some failing_callback" by (simp add: SetLogCallback_ctx_def)
  have co: "callback example_logger_mp = None" by (simp add: example_logger_mp_def)
  note t = callback_once [OF a, of ?l 350 example_kinds example_logger_mp]
  have c1: "OnAfterEvent_ctx example_kinds ?l 350 ?e
       = (stamped 350 ?e, [CallbackCall (stamped 350 ?e)], Some ''callback error'')"
    using t k by (auto simp: callback_contract_def cl failing_callback_def)
  have c2: "OnAfterEvent_mp example_kinds example_logger_mp 350 ?e = (stamped 350 ?e, [], None)"
    using t k by (auto simp: callback_contract_def co)
  from a k c1 c2 show ?thesis unfolding s by (intro conjI)
qed




section \<open>Properties of construction\<close>









section \<open>The two versions side by side\<close>

lemma constructors_agree:
  "same_construction (NewOpenTelemetryLoggerWithContext c (p meterName) s)
     (NewOpenTelemetryLoggerWithMeterProvider p s)"
  unfolding same_construction_def NewOpenTelemetryLoggerWithContext_def
    NewOpenTelemetryLoggerWithMeterProvider_def Let_def
  apply (cases "Float64Histogram (p meterName) ''casbin.enforce.duration''
          [WithDescription ''Duration of enforce requests in seconds'', WithUnit ''s''] s")
  subgoal for r1 s1
    apply (cases r1)
     apply (simp; fail)
    apply (simp only: prod.case sum.case fst_conv snd_conv)
    apply (cases "Int64Counter (p meterName) ''casbin.enforce.total''
          [WithDescription ''Total number of enforce requests''] s1")
    subgoal for h1 r2 s2
      apply (cases r2)
       apply (simp; fail)
      apply (simp only: prod.case sum.case fst_conv snd_conv)
      apply (cases "Int64Counter (p meterName) ''casbin.policy.operations.total''
          [WithDescription ''Total number of policy operations''] s2")
      subgoal for h2 r3 s3
        apply (cases r3)
         apply (simp; fail)
        apply (simp only: prod.case sum.case fst_conv snd_conv)
        apply (cases "Float64Histogram (p meterName) ''casbin.policy.operations.duration''
          [WithDescription ''Duration of policy operations in seconds'', WithUnit ''s''] s3")
        subgoal for h3 r4 s4
          apply (cases r4)
           apply (simp; fail)
          apply (simp only: prod.case sum.case fst_conv snd_conv)
          apply (cases "Int64Gauge (p meterName) ''casbin.policy.rules.count''
          [WithDescription ''Number of policy rules affected by operations''] s4")
          subgoal for h4 r5 s5
            apply (cases r5)
             apply (simp; fail)
            apply (simp only: prod.case sum.case fst_conv snd_conv)
            apply (simp add: same_fields_def)
            done
          done
        done
      done
    done
  done

lemma before_agree:
  "same_fields l o' \<Longrightarrow> OnBeforeEvent_ctx l now entry = OnBeforeEvent_mp o' now entry"
  by (simp add: OnBeforeEvent_ctx_def OnBeforeEvent_mp_def same_fields_def)

lemma enforce_to_background:
  "same_fields l o' \<Longrightarrow>
     recordEnforceMetrics_mp o' e = map (with_context Background) (recordEnforceMetrics_ctx l e)"
  by (simp add: recordEnforceMetrics_ctx_def recordEnforceMetrics_mp_def same_fields_def Let_def)

lemma enforce_to_ctx:
  "same_fields l o' \<Longrightarrow>
     recordEnforceMetrics_ctx l e = map (with_context (ctx l)) (recordEnforceMetrics_mp o' e)"
  by (simp add: recordEnforceMetrics_ctx_def recordEnforceMetrics_mp_def same_fields_def Let_def)

lemma policy_to_background:
  "same_fields l o' \<Longrightarrow>
     recordPolicyMetrics_mp o' e = map (with_context Background) (recordPolicyMetrics_ctx l e)"
  by (simp add: recordPolicyMetrics_ctx_def recordPolicyMetrics_mp_def same_fields_def Let_def)

lemma policy_to_ctx:
  "same_fields l o' \<Longrightarrow>
     recordPolicyMetrics_ctx l e = map (with_context (ctx l)) (recordPolicyMetrics_mp o' e)"
  by (simp add: recordPolicyMetrics_ctx_def recordPolicyMetrics_mp_def same_fields_def Let_def)

lemma after_agree:
  assumes "same_fields l o'"
  shows "fst (OnAfterEvent_ctx K l now entry) = fst (OnAfterEvent_mp K o' now entry)
       \<and> snd (snd (OnAfterEvent_ctx K l now entry)) = snd (snd (OnAfterEvent_mp K o' now entry))
       \<and> fst (snd (OnAfterEvent_mp K o' now entry))
           = map (with_context Background) (fst (snd (OnAfterEvent_ctx K l now entry)))
       \<and> fst (snd (OnAfterEvent_ctx K l now entry))
           = map (with_context (ctx l)) (fst (snd (OnAfterEvent_mp K o' now entry)))"
proof (cases "IsActive entry")
  case False
  then show ?thesis by (simp add: OnAfterEvent_ctx_inactive OnAfterEvent_mp_inactive)
next
  case True
  have cb: "callback l = callback o'" using assms by (simp add: same_fields_def)
  have "fst (OnAfterEvent_ctx K l now entry) = fst (OnAfterEvent_mp K o' now entry)"
    by (simp add: OnAfterEvent_ctx_active [OF True] OnAfterEvent_mp_active [OF True] cb Let_def
        split: option.splits)
  moreover have "snd (snd (OnAfterEvent_ctx K l now entry)) = snd (snd (OnAfterEvent_mp K o' now entry))"
    by (simp add: OnAfterEvent_ctx_active [OF True] OnAfterEvent_mp_active [OF True] cb Let_def
        split: option.splits)
  moreover have "fst (snd (OnAfterEvent_mp K o' now entry))
           = map (with_context Background) (fst (snd (OnAfterEvent_ctx K l now entry)))"
    by (simp add: OnAfterEvent_ctx_active [OF True] OnAfterEvent_mp_active [OF True] cb Let_def
        enforce_to_background [OF assms] policy_to_background [OF assms] split: option.splits)
  moreover have "fst (snd (OnAfterEvent_ctx K l now entry))
           = map (with_context (ctx l)) (fst (snd (OnAfterEvent_mp K o' now entry)))"
    by (simp add: OnAfterEvent_ctx_active [OF True] OnAfterEvent_mp_active [OF True] cb Let_def
        enforce_to_ctx [OF assms] policy_to_ctx [OF assms] split: option.splits)
  ultimately show ?thesis by (intro conjI)
qed

lemma same_fields_examples: "same_fields example_logger_ctx example_logger_mp"
  by (simp add: same_fields_def example_logger_ctx_def example_logger_mp_def)

text \<open>
  Claim C10. Take a logger of each version with the same enabled-event map, the same
  callback and the same five instrument handles. Then for every entry and clock reading
  \<open>OnBeforeEvent\<close> gives the same entry and result in both, and \<open>OnAfterEvent\<close> gives the
  same entry, the same result and the same effects in the same order (same instrument,
  value and attributes, same callback call) except for the context passed with each
  measurement: the first version's own context where the second passes a background one.
  \<open>SetEventTypes\<close> and \<open>SetLogCallback\<close> keep two such loggers such, and the two
  constructors, run on the same meter from the same backend state, make the same
  registrations and either fail with the same error or return two such loggers.
\<close>

theorem variants_equivalent:
  assumes "same_fields l o'"
  shows "OnBeforeEvent_ctx l now entry = OnBeforeEvent_mp o' now entry
       \<and> fst (OnAfterEvent_ctx K l now entry) = fst (OnAfterEvent_mp K o' now entry)
       \<and> snd (snd (OnAfterEvent_ctx K l now entry)) = snd (snd (OnAfterEvent_mp K o' now entry))
       \<and> fst (snd (OnAfterEvent_mp K o' now entry))
           = map (with_context Background) (fst (snd (OnAfterEvent_ctx K l now entry)))
       \<and> fst (snd (OnAfterEvent_ctx K l now entry))
           = map (with_context (ctx l)) (fst (snd (OnAfterEvent_mp K o' now entry)))
       \<and> same_fields (fst (SetEventTypes_ctx l ks)) (fst (SetEventTypes_mp o' ks))
       \<and> same_fields (fst (SetLogCallback_ctx l cb)) (fst (SetLogCallback_mp o' cb))
       \<and> same_construction (NewOpenTelemetryLoggerWithContext c (p meterName) s)
            (NewOpenTelemetryLoggerWithMeterProvider p s)"
proof -
  have set: "same_fields (fst (SetEventTypes_ctx l ks)) (fst (SetEventTypes_mp o' ks))"
    using assms by (simp add: same_fields_def SetEventTypes_ctx_def SetEventTypes_mp_def)
  have cbs: "same_fields (fst (SetLogCallback_ctx l cb)) (fst (SetLogCallback_mp o' cb))"
    using assms by (simp add: same_fields_def SetLogCallback_ctx_def SetLogCallback_mp_def)
  note after = after_agree [OF assms, of K now entry]
  show ?thesis
    apply (intro conjI)
           apply (rule before_agree [OF assms])
          apply (rule after [THEN conjunct1])
         apply (rule after [THEN conjunct2, THEN conjunct1])
        apply (rule after [THEN conjunct2, THEN conjunct2, THEN conjunct1])
       apply (rule after [THEN conjunct2, THEN conjunct2, THEN conjunct2])
      apply (rule set)
     apply (rule cbs)
    apply (rule constructors_agree)
    done
qed

theorem variants_equivalent_witness:
  "same_fields example_logger_ctx example_logger_mp
   \<and> OnBeforeEvent_ctx example_logger_ctx 7 removal_entry
       = OnBeforeEvent_mp example_logger_mp 7 removal_entry
   \<and> fst (snd (OnAfterEvent_ctx example_kinds example_logger_ctx 350 removal_entry))
       = [CounterAdd (Derived 1) 2 1 [(''operation'', ''removePolicy''), (''success'', ''false'')],
          HistogramRecord (Derived 1) 3 (Seconds 250) [(''operation'', ''removePolicy'')],
          GaugeRecord (Derived 1) 4 2 [(''operation'', ''removePolicy'')]]
   \<and> fst (snd (OnAfterEvent_mp example_kinds example_logger_mp 350 removal_entry))
       = [CounterAdd Background 2 1 [(''operation'', ''removePolicy''), (''success'', ''false'')],
          HistogramRecord Background 3 (Seconds 250) [(''operation'', ''removePolicy'')],
          GaugeRecord Background 4 2 [(''operation'', ''removePolicy'')]]
   \<and> fst (OnAfterEvent_ctx example_kinds example_logger_ctx 350 removal_entry)
       = fst (OnAfterEvent_mp example_kinds example_logger_mp 350 removal_entry)
   \<and> snd (snd (OnAfterEvent_ctx example_kinds example_logger_ctx 350 removal_entry))
       = snd (snd (OnAfterEvent_mp example_kinds example_logger_mp 350 removal_entry))"
proof -
  note t = variants_equivalent [OF same_fields_examples, of 7 removal_entry example_kinds]
  note u = variants_equivalent [OF same_fields_examples, of 350 removal_entry example_kinds]
  have b: "OnBeforeEvent_ctx example_logger_ctx 7 removal_entry
       = OnBeforeEvent_mp example_logger_mp 7 removal_entry"
    using t by (rule conjunct1)
  have e: "fst (OnAfterEvent_ctx example_kinds example_logger_ctx 350 removal_entry)
       = fst (OnAfterEvent_mp example_kinds example_logger_mp 350 removal_entry)"
    by (rule u [THEN conjunct2, THEN conjunct1])
  have r: "snd (snd (OnAfterEvent_ctx example_kinds example_logger_ctx 350 removal_entry))
       = snd (snd (OnAfterEvent_mp example_kinds example_logger_mp 350 removal_entry))"
    by (rule u [THEN conjunct2, THEN conjunct2, THEN conjunct1])
  have m: "fst (snd (OnAfterEvent_mp example_kinds example_logger_mp 350 removal_entry))
           = map (with_context Background)
               (fst (snd (OnAfterEvent_ctx example_kinds example_logger_ctx 350 removal_entry)))"
    by (rule u [THEN conjunct2, THEN conjunct2, THEN conjunct2, THEN conjunct1])
  have x: "fst (snd (OnAfterEvent_ctx example_kinds example_logger_ctx 350 removal_entry))
       = [CounterAdd (Derived 1) 2 1 [(''operation'', ''removePolicy''), (''success'', ''false'')],
          HistogramRecord (Derived 1) 3 (Seconds 250) [(''operation'', ''removePolicy'')],
          GaugeRecord (Derived 1) 4 2 [(''operation'', ''removePolicy'')]]"
    by (simp add: OnAfterEvent_ctx_def recordPolicyMetrics_ctx_def removal_entry_def
        example_entry_def example_logger_ctx_def example_kinds_def time_Sub_def maxDuration_def
        minDuration_def Let_def)
  have y: "fst (snd (OnAfterEvent_mp example_kinds example_logger_mp 350 removal_entry))
       = [CounterAdd Background 2 1 [(''operation'', ''removePolicy''), (''success'', ''false'')],
          HistogramRecord Background 3 (Seconds 250) [(''operation'', ''removePolicy'')],
          GaugeRecord Background 4 2 [(''operation'', ''removePolicy'')]]"
    unfolding m x by simp
  from same_fields_examples b x y e r show ?thesis by (intro conjI)
qed

end
